theory Spec2Isabelle
  imports Complex_Main "HOL-Library.Sublist"
begin

section \<open>Values of the host language\<close>

text \<open>
  The generator is Python on top of a slide library. Lengths are English Metric Units;
  the library's \<open>Inches\<close>, \<open>Pt\<close> and \<open>Emu\<close> build them by truncating a product to an
  integer. Python's true division \<open>/\<close> yields a binary float; lengths are modelled as
  exact rationals, so a quotient is the exact quotient. Strings are lists of
  \<^typ>\<open>char\<close>, one for each character of an ASCII text; the one literal of the source
  outside ASCII is written as its UTF-8 bytes.
\<close>

datatype error = TypeError | AttributeError | IndexError

definition py_int :: "rat \<Rightarrow> int" where
  "py_int v = (if 0 \<le> v then \<lfloor>v\<rfloor> else \<lceil>v\<rceil>)"

definition Inches :: "rat \<Rightarrow> rat" where
  "Inches x = of_int (py_int (x * 914400))"

definition Pt :: "int \<Rightarrow> int" where
  "Pt n = n * 12700"

definition Emu :: "rat \<Rightarrow> int" where
  "Emu v = py_int v"

function str_nat :: "nat \<Rightarrow> string" where
  "str_nat n =
     (if n < 10 then [''0123456789'' ! n]
      else str_nat (n div 10) @ [''0123456789'' ! (n mod 10)])"
  by pat_completeness auto
termination
  by (relation "measure id") auto

definition str_int :: "int \<Rightarrow> string" where
  "str_int i = (if i < 0 then CHR ''-'' # str_nat (nat (- i)) else str_nat (nat i))"

text \<open>\<open>s[:1000] + "..."\<close> when \<open>len(s) > 1000\<close>, as written three times in the source.\<close>

definition truncate_1000 :: "string \<Rightarrow> string" where
  "truncate_1000 s = (if length s > 1000 then take 1000 s @ ''...'' else s)"

text \<open>\<open>d.get(key, default)\<close> on a key that is absent (\<open>None\<close>) or holds a value.\<close>

definition get_default :: "'a option \<Rightarrow> 'a \<Rightarrow> 'a" where
  "get_default v d = (case v of None \<Rightarrow> d | Some x \<Rightarrow> x)"

section \<open>Design constants\<close>

datatype rgb = RGBColor nat nat nat

definition GOOGLE_BLUE :: rgb where "GOOGLE_BLUE = RGBColor 66 133 244"
definition TEXT_COLOR :: rgb where "TEXT_COLOR = RGBColor 32 33 36"
definition DARK_GRAY :: rgb where "DARK_GRAY = RGBColor 64 64 64"
definition WHITE :: rgb where "WHITE = RGBColor 255 255 255"
definition RED :: rgb where "RED = RGBColor 255 0 0"
definition ORANGE :: rgb where "ORANGE = RGBColor 255 165 0"
definition GREEN :: rgb where "GREEN = RGBColor 0 128 0"

definition SLIDE_WIDTH :: rat where "SLIDE_WIDTH = Inches 16"
definition SLIDE_HEIGHT :: rat where "SLIDE_HEIGHT = Inches 9"
definition MARGIN_LEFT :: rat where "MARGIN_LEFT = Inches 1.0"
definition MARGIN_RIGHT :: rat where "MARGIN_RIGHT = Inches 1.0"
definition MARGIN_TOP :: rat where "MARGIN_TOP = Inches 0.8"
definition MARGIN_BOTTOM :: rat where "MARGIN_BOTTOM = Inches 0.8"

definition FONT_HEADLINE :: string where "FONT_HEADLINE = ''Meiryo UI''"
definition FONT_BODY :: string where "FONT_BODY = ''Meiryo UI''"
definition TITLE_FONT_SIZE :: int where "TITLE_FONT_SIZE = Pt 60"
definition SLIDE_TITLE_FONT_SIZE :: int where "SLIDE_TITLE_FONT_SIZE = Pt 36"
definition SUBHEAD_FONT_SIZE :: int where "SUBHEAD_FONT_SIZE = Pt 30"
definition BODY_FONT_SIZE :: int where "BODY_FONT_SIZE = Pt 20"

section \<open>Slide surface: runs, paragraphs, shapes\<close>

text \<open>
  What a drawing function leaves on a slide: shapes in the order they were added, each
  with its box, its fill colour and the paragraphs of its text frame. Word wrap, vertical
  anchor and outline settings of a shape are not part of the model.
\<close>

datatype align = LEFT | CENTER | RIGHT

record run =
  run_text :: string
  run_bold :: "bool option"
  run_color :: "rgb option"
  run_font_name :: "string option"

record para =
  alignment :: "align option"
  level :: nat
  font_size :: "int option"
  font_name :: "string option"
  font_color :: "rgb option"
  font_bold :: "bool option"
  space_after :: "int option"
  runs :: "run list"

datatype shape_kind = TEXTBOX | RECTANGLE | RIGHT_ARROW | OVAL | ROUNDED_RECTANGLE | TABLE

record shape =
  sh_kind :: shape_kind
  sh_left :: rat
  sh_top :: rat
  sh_width :: rat
  sh_height :: rat
  sh_fill :: "rgb option"
  text_frame :: "para list"
  column_widths :: "int list"
  cells :: "para list list"

record slide =
  slide_name :: string
  shapes :: "shape list"
  notes_text :: "string option"

definition add_run :: run where
  "add_run = \<lparr>run_text = [], run_bold = None, run_color = None, run_font_name = None\<rparr>"

definition new_paragraph :: para where
  "new_paragraph = \<lparr>alignment = None, level = 0, font_size = None, font_name = None,
     font_color = None, font_bold = None, space_after = None, runs = []\<rparr>"

text \<open>
  \<open>p.text = s\<close> replaces the runs of a paragraph by the text: one run without font
  settings, and no run for the empty string.
\<close>

definition set_text :: "para \<Rightarrow> string \<Rightarrow> para" where
  "set_text p s = p\<lparr>runs := (if s = [] then [] else [add_run\<lparr>run_text := s\<rparr>])\<rparr>"

text \<open>A fresh text box or auto shape: its text frame holds one empty paragraph.\<close>

definition add_textbox :: "rat \<Rightarrow> rat \<Rightarrow> rat \<Rightarrow> rat \<Rightarrow> shape" where
  "add_textbox l t w h = \<lparr>sh_kind = TEXTBOX, sh_left = l, sh_top = t, sh_width = w,
     sh_height = h, sh_fill = None, text_frame = [new_paragraph], column_widths = [],
     cells = []\<rparr>"

definition add_shape :: "shape_kind \<Rightarrow> rat \<Rightarrow> rat \<Rightarrow> rat \<Rightarrow> rat \<Rightarrow> shape" where
  "add_shape k l t w h = \<lparr>sh_kind = k, sh_left = l, sh_top = t, sh_width = w,
     sh_height = h, sh_fill = None, text_frame = [new_paragraph], column_widths = [],
     cells = []\<rparr>"

text \<open>\<open>text_frame.clear()\<close>: only the first paragraph stays, without its runs.\<close>

fun clear :: "para list \<Rightarrow> para list" where
  "clear [] = [new_paragraph]"
| "clear (p # ps) = [p\<lparr>runs := []\<rparr>]"

section \<open>Inline markup parser\<close>

text \<open>
  \<open>re.split(r'(\*\*.*?\*\*|\[\[.*?\]\])', text)\<close>. After an opening pair the lazy
  \<open>.*?\<close> stops at the first closing pair and never crosses a line feed;
  \<open>lazy_until c s\<close> gives the body and what follows the closing pair.
\<close>

fun lazy_until :: "char \<Rightarrow> string \<Rightarrow> (string \<times> string) option" where
  "lazy_until c (x # y # zs) =
     (if x = c \<and> y = c then Some ([], zs)
      else if x = CHR 0x0A then None
      else map_option (\<lambda>(body, r). (x # body, r)) (lazy_until c (y # zs)))"
| "lazy_until c zs = None"

text \<open>A match of the pattern at the head of the string: the matched token and the rest.\<close>

fun match_marker :: "string \<Rightarrow> (string \<times> string) option" where
  "match_marker (a # b # rest) =
     (if a = CHR ''*'' \<and> b = CHR ''*''
      then map_option (\<lambda>(body, r). (''**'' @ body @ ''**'', r)) (lazy_until (CHR ''*'') rest)
      else if a = CHR ''['' \<and> b = CHR ''[''
      then map_option (\<lambda>(body, r). (''[['' @ body @ '']]'', r)) (lazy_until (CHR '']'') rest)
      else None)"
| "match_marker s = None"

fun cons_first :: "char \<Rightarrow> string list \<Rightarrow> string list" where
  "cons_first c (p # ps) = (c # p) # ps"
| "cons_first c [] = [[c]]"

text \<open>
  The split list: the text before the leftmost match, the match itself, then the split of
  what follows; a character that starts no match joins the piece of text it stands in.
\<close>

function re_split :: "string \<Rightarrow> string list" where
  "re_split [] = [[]]"
| "re_split (c # cs) =
     (case match_marker (c # cs) of
        Some (tok, r) \<Rightarrow> [] # tok # re_split r
      | None \<Rightarrow> cons_first c (re_split cs))"
  by pat_completeness auto
termination
proof (relation "measure length")
  show "wf (measure length)" by simp
next
  fix c :: char and cs x2 x y
  assume m: "match_marker (c # cs) = Some x2" and x2: "(x, y) = x2"
  have lu: "lazy_until d s = Some (b, r) \<Longrightarrow> length r < length s" for d s b r
    by (induction d s arbitrary: b r rule: lazy_until.induct) (auto split: if_splits)
  from m x2 have "length y < length (c # cs)"
    by (cases cs) (auto split: if_splits dest!: lu)
  then show "(y, c # cs) \<in> measure length" by simp
next
  fix c :: char and cs
  show "(cs, c # cs) \<in> measure length" by simp
qed

declare re_split.simps [simp del]

text \<open>\<open>part[2:-2]\<close>: the characters from index 2 up to, not including, index \<open>len - 2\<close>.\<close>

definition slice_2_m2 :: "string \<Rightarrow> string" where
  "slice_2_m2 s = take (length s - 4) (drop 2 s)"

text \<open>The body of the loop over the parts: the runs one part adds.\<close>

definition part_runs :: "string \<Rightarrow> run list" where
  "part_runs part =
     (if prefix ''**'' part \<and> suffix ''**'' part then
        [add_run\<lparr>run_text := slice_2_m2 part, run_bold := Some True,
                 run_font_name := Some FONT_BODY\<rparr>]
      else if prefix ''[['' part \<and> suffix '']]'' part then
        [add_run\<lparr>run_text := slice_2_m2 part, run_bold := Some True,
                 run_color := Some GOOGLE_BLUE, run_font_name := Some FONT_BODY\<rparr>]
      else if part \<noteq> [] then
        [add_run\<lparr>run_text := part, run_font_name := Some FONT_BODY\<rparr>]
      else [])"

definition apply_formatted_text_to_paragraph :: "para \<Rightarrow> string \<Rightarrow> para" where
  "apply_formatted_text_to_paragraph p text =
     (if text = [] then p
      else p\<lparr>runs := runs p @ concat (map part_runs (re_split text))\<rparr>)"

definition set_formatted_text_in_frame :: "para list \<Rightarrow> string \<Rightarrow> para list" where
  "set_formatted_text_in_frame tf text =
     (let p = (hd (clear tf))\<lparr>alignment := Some LEFT\<rparr> in
      if text = [] then [p]
      else [apply_formatted_text_to_paragraph p (truncate_1000 text)])"

section \<open>Slide data\<close>

text \<open>
  A slide record is a Python dict. Each key is a field that is absent (\<open>None\<close>) or holds
  a value of the type the request schema gives it. The keys \<open>columns\<close> and \<open>items\<close> are
  shared by slide kinds with different value types, so their values are tagged. The
  \<open>percent\<close> of a progress item is an integer.
\<close>

record milestone =
  m_label :: "string option"
  m_date :: "string option"

record lane =
  lane_title :: "string option"
  lane_items :: "string list option"

record item_obj =
  item_title :: "string option"
  item_desc :: "string option"
  item_label :: "string option"
  item_percent :: "int option"

datatype item = ItemStr string | ItemObj item_obj

datatype columns_value = ColumnLists "string list list" | ColumnCount int

record slide_data =
  sd_type :: "string option"
  sd_title :: "string option"
  sd_notes :: "string option"
  sd_date :: "string option"
  sd_sectionNo :: "int option"
  sd_subhead :: "string option"
  sd_points :: "string list option"
  sd_twoColumn :: "bool option"
  sd_columns :: "columns_value option"
  sd_leftTitle :: "string option"
  sd_rightTitle :: "string option"
  sd_leftItems :: "string list option"
  sd_rightItems :: "string list option"
  sd_steps :: "string list option"
  sd_milestones :: "milestone list option"
  sd_lanes :: "lane list option"
  sd_items :: "item list option"
  sd_headers :: "string list option"
  sd_rows :: "string list list option"

record presentation =
  prs_slide_width :: rat
  prs_slide_height :: rat
  prs_slides :: "slide list"

section \<open>Helpers of the drawing functions\<close>

definition add_shapes :: "slide \<Rightarrow> shape list \<Rightarrow> slide" where
  "add_shapes s new = s\<lparr>shapes := shapes s @ new\<rparr>"

definition add_speaker_notes :: "slide \<Rightarrow> string option \<Rightarrow> slide" where
  "add_speaker_notes s notes =
     (case notes of
        None \<Rightarrow> s
      | Some t \<Rightarrow> if t = [] then s else s\<lparr>notes_text := Some (truncate_1000 t)\<rparr>)"

text \<open>\<open>sub in s\<close> on strings.\<close>

fun contains :: "string \<Rightarrow> string \<Rightarrow> bool" where
  "contains sub [] = (sub = [])"
| "contains sub (c # cs) = (prefix sub (c # cs) \<or> contains sub cs)"

text \<open>
  The block that opens the content, compare, process, table, timeline, diagram, cards and
  progress functions: the slide title in a text box across the top.
\<close>

definition slide_title_shape :: "string \<Rightarrow> shape" where
  "slide_title_shape title_text =
     (let title_shape = add_textbox MARGIN_LEFT MARGIN_TOP
            (SLIDE_WIDTH - MARGIN_LEFT - MARGIN_RIGHT) (Inches 1);
          p = new_paragraph\<lparr>font_size := Some SLIDE_TITLE_FONT_SIZE,
                font_name := Some FONT_HEADLINE, font_color := Some TEXT_COLOR,
                font_bold := Some True\<rparr>
      in title_shape\<lparr>text_frame := set_formatted_text_in_frame [p] title_text\<rparr>)"

text \<open>
  The subhead block of the compare, process, table, diagram, cards and progress
  functions: the shapes it adds and the top of the body below it.
\<close>

definition subhead_block :: "slide_data \<Rightarrow> shape list \<times> rat" where
  "subhead_block d =
     (let body_top = MARGIN_TOP + Inches 1.2 in
      case sd_subhead d of
        None \<Rightarrow> ([], body_top)
      | Some subhead \<Rightarrow>
          (let subhead_shape = add_textbox MARGIN_LEFT body_top
                 (SLIDE_WIDTH - MARGIN_LEFT - MARGIN_RIGHT) (Inches 0.5);
               p = new_paragraph\<lparr>font_size := Some (Pt 24), font_name := Some FONT_BODY,
                     font_color := Some GOOGLE_BLUE\<rparr>
           in ([subhead_shape\<lparr>text_frame := [apply_formatted_text_to_paragraph p subhead]\<rparr>],
               body_top + Inches 0.6)))"

text \<open>A bullet paragraph: \<open>add_paragraph()\<close>, size, body font, level 1, then the runs.\<close>

definition bullet_paragraph :: "int \<Rightarrow> string \<Rightarrow> para" where
  "bullet_paragraph fsize item_text =
     apply_formatted_text_to_paragraph
       (new_paragraph\<lparr>font_size := Some fsize, font_name := Some FONT_BODY, level := 1\<rparr>)
       item_text"

section \<open>Title, section and closing slides\<close>

definition draw_title_slide :: "slide \<Rightarrow> slide_data \<Rightarrow> error + slide" where
  "draw_title_slide s d =
     (let title_shape = add_textbox (Inches 1) (Inches 3.5) (SLIDE_WIDTH - Inches 2) (Inches 2);
          p = new_paragraph\<lparr>alignment := Some CENTER, font_size := Some TITLE_FONT_SIZE,
                font_name := Some FONT_HEADLINE, font_color := Some TEXT_COLOR,
                font_bold := Some True\<rparr>;
          title_tf = set_formatted_text_in_frame [p] (get_default (sd_title d) []);
          title_tf = map (\<lambda>q. q\<lparr>alignment := Some CENTER\<rparr>) title_tf;
          date_shape = add_textbox (Inches 1) (Inches 8) (SLIDE_WIDTH - Inches 2) (Inches 0.5);
          p = set_text (new_paragraph\<lparr>alignment := Some RIGHT, font_size := Some (Pt 24),
                font_name := Some FONT_BODY\<rparr>) (get_default (sd_date d) [])
      in Inr (add_shapes s [title_shape\<lparr>text_frame := title_tf\<rparr>,
                            date_shape\<lparr>text_frame := [p]\<rparr>]))"

text \<open>
  \<open>re.sub(r'^\d+[\.\:\-]?\s*', '', title)\<close>: a leading run of digits goes, with one
  separator after it and the white space that follows. Digits and white space are the
  ASCII ones.
\<close>

definition is_digit :: "char \<Rightarrow> bool" where
  "is_digit c = (c \<in> set ''0123456789'')"

definition is_space :: "char \<Rightarrow> bool" where
  "is_space c = (c \<in> set [CHR '' '', CHR 0x09, CHR 0x0A, CHR 0x0B, CHR 0x0C, CHR 0x0D,
     CHR 0x1C, CHR 0x1D, CHR 0x1E, CHR 0x1F])"

definition strip_number_prefix :: "string \<Rightarrow> string" where
  "strip_number_prefix s =
     (if takeWhile is_digit s = [] then s
      else let r = dropWhile is_digit s;
               r = (case r of
                      [] \<Rightarrow> r
                    | c # cs \<Rightarrow> if c \<in> set ''.:-'' then cs else r)
           in dropWhile is_space r)"

text \<open>\<open>str(section_no)\<close>, where \<open>section_no\<close> is the number or the default \<open>""\<close>.\<close>

definition str_section_no :: "int option \<Rightarrow> string" where
  "str_section_no section_no = (case section_no of None \<Rightarrow> [] | Some n \<Rightarrow> str_int n)"

definition draw_section_slide :: "slide \<Rightarrow> slide_data \<Rightarrow> error + slide" where
  "draw_section_slide s d =
     (let section_no = sd_sectionNo d;
          section_title_text = strip_number_prefix (get_default (sd_title d) []);
          total_width = SLIDE_WIDTH - MARGIN_LEFT * 2;
          section_no_width = Inches 2.0;
          section_title_width = total_width - section_no_width - Inches 0.5;
          no_shape = add_textbox MARGIN_LEFT (Inches 3) section_no_width (Inches 3);
          p_no = set_text (new_paragraph\<lparr>alignment := Some RIGHT, font_size := Some (Pt 150),
                   font_name := Some FONT_HEADLINE, font_color := Some GOOGLE_BLUE,
                   font_bold := Some True\<rparr>) (str_section_no section_no);
          title_shape = add_textbox (MARGIN_LEFT + section_no_width + Inches 0.5) (Inches 3)
                   section_title_width (Inches 3);
          p_title = new_paragraph\<lparr>alignment := Some LEFT, font_size := Some (Pt 60),
                   font_name := Some FONT_HEADLINE, font_color := Some TEXT_COLOR,
                   font_bold := Some True\<rparr>
      in Inr (add_shapes s
           [no_shape\<lparr>text_frame := [p_no]\<rparr>,
            title_shape\<lparr>text_frame :=
              set_formatted_text_in_frame [p_title] section_title_text\<rparr>]))"

definition draw_closing_slide :: "slide \<Rightarrow> slide_data \<Rightarrow> error + slide" where
  "draw_closing_slide s d =
     (let title_shape = add_textbox (Inches 1) (Inches 3.5) (SLIDE_WIDTH - Inches 2) (Inches 2);
          p = set_text (new_paragraph\<lparr>alignment := Some CENTER,
                font_size := Some TITLE_FONT_SIZE, font_name := Some FONT_HEADLINE,
                font_color := Some TEXT_COLOR, font_bold := Some True\<rparr>) ''Thank you''
      in Inr (add_shapes s [title_shape\<lparr>text_frame := [p]\<rparr>]))"

section \<open>Content and compare slides\<close>

text \<open>
  The agenda test looks for \<open>Agenda\<close> or for the katakana word of the source, written
  here as its UTF-8 bytes.
\<close>

definition AGENDA_KATAKANA :: string where
  "AGENDA_KATAKANA = [CHR 0xE3, CHR 0x82, CHR 0xA2, CHR 0xE3, CHR 0x82, CHR 0xB8,
     CHR 0xE3, CHR 0x82, CHR 0xA7, CHR 0xE3, CHR 0x83, CHR 0xB3, CHR 0xE3, CHR 0x83, CHR 0x80]"

definition is_agenda_slide :: "string \<Rightarrow> bool" where
  "is_agenda_slide slide_title_str =
     (contains AGENDA_KATAKANA slide_title_str \<or> contains ''Agenda'' slide_title_str)"

definition column_textbox :: "rat \<Rightarrow> rat \<Rightarrow> rat \<Rightarrow> rat \<Rightarrow> int \<Rightarrow> string list \<Rightarrow> shape" where
  "column_textbox l t w h fsize column_items =
     (add_textbox l t w h)\<lparr>text_frame :=
        clear [new_paragraph] @ map (bullet_paragraph fsize) column_items\<rparr>"

definition point_paragraph :: "bool \<Rightarrow> string \<Rightarrow> para" where
  "point_paragraph agenda point_text =
     (let p = new_paragraph\<lparr>font_size := Some (Pt 36), font_name := Some FONT_BODY,
                level := 1\<rparr>;
          p = (if agenda then p\<lparr>font_bold := Some True\<rparr> else p);
          p = apply_formatted_text_to_paragraph p point_text
      in if agenda then p\<lparr>font_bold := Some True\<rparr> else p)"

definition subhead_paragraph :: "string \<Rightarrow> para" where
  "subhead_paragraph subhead =
     (apply_formatted_text_to_paragraph
        (new_paragraph\<lparr>font_size := Some SUBHEAD_FONT_SIZE, font_name := Some FONT_BODY\<rparr>)
        subhead)\<lparr>space_after := Some (Pt 12)\<rparr>"

definition draw_content_slide :: "slide \<Rightarrow> slide_data \<Rightarrow> error + slide" where
  "draw_content_slide s d =
     (let title_shape = slide_title_shape (get_default (sd_title d) []);
          body_top = MARGIN_TOP + Inches 1.2;
          body_height = SLIDE_HEIGHT - body_top - MARGIN_BOTTOM
      in if sd_twoColumn d = Some True then
           (case get_default (sd_columns d) (ColumnLists [[], []]) of
              ColumnCount n \<Rightarrow> Inl TypeError
            | ColumnLists columns_data \<Rightarrow>
                (let left_column_items =
                       (if length columns_data > 0 then columns_data ! 0 else []);
                     right_column_items =
                       (if length columns_data > 1 then columns_data ! 1 else []);
                     column_width = (SLIDE_WIDTH - MARGIN_LEFT * 2 - Inches 0.5) / 2;
                     left_body_shape = column_textbox MARGIN_LEFT body_top column_width
                       body_height BODY_FONT_SIZE left_column_items;
                     right_body_shape = column_textbox (MARGIN_LEFT + column_width + Inches 0.5)
                       body_top column_width body_height BODY_FONT_SIZE right_column_items
                 in Inr (add_shapes s [title_shape, left_body_shape, right_body_shape])))
         else
           (let body_shape = add_textbox MARGIN_LEFT body_top
                  (SLIDE_WIDTH - MARGIN_LEFT - MARGIN_RIGHT) body_height;
                body_tf = clear [new_paragraph];
                body_tf = (case sd_subhead d of
                             None \<Rightarrow> body_tf
                           | Some subhead \<Rightarrow> body_tf @ [subhead_paragraph subhead]);
                body_tf = (case sd_points d of
                             None \<Rightarrow> body_tf
                           | Some points \<Rightarrow>
                               body_tf @ map (point_paragraph
                                 (is_agenda_slide (get_default (sd_title d) []))) points)
            in Inr (add_shapes s [title_shape, body_shape\<lparr>text_frame := body_tf\<rparr>])))"

definition compare_title_shape :: "rat \<Rightarrow> rat \<Rightarrow> rat \<Rightarrow> string \<Rightarrow> shape" where
  "compare_title_shape l t w column_title =
     (let p = new_paragraph\<lparr>alignment := Some CENTER, font_size := Some (Pt 30),
                font_name := Some FONT_HEADLINE, font_color := Some WHITE,
                font_bold := Some True\<rparr>
      in (add_textbox l t w (Inches 0.5))\<lparr>sh_fill := Some DARK_GRAY,
            text_frame := set_formatted_text_in_frame [p] column_title\<rparr>)"

definition draw_compare_slide :: "slide \<Rightarrow> slide_data \<Rightarrow> error + slide" where
  "draw_compare_slide s d =
     (let title_shape = slide_title_shape (get_default (sd_title d) []);
          (subhead_shapes, body_top) = subhead_block d;
          column_width = (SLIDE_WIDTH - MARGIN_LEFT * 2 - Inches 0.5) / 2;
          column_height = SLIDE_HEIGHT - body_top - MARGIN_BOTTOM;
          left_title_shape = compare_title_shape MARGIN_LEFT body_top column_width
            (get_default (sd_leftTitle d) []);
          right_title_shape = compare_title_shape (MARGIN_LEFT + column_width + Inches 0.5)
            body_top column_width (get_default (sd_rightTitle d) []);
          left_items_top = body_top + Inches 0.6;
          left_items_shape = column_textbox MARGIN_LEFT left_items_top column_width
            (column_height - Inches 0.6) (Pt 24) (get_default (sd_leftItems d) []);
          right_items_top = body_top + Inches 0.6;
          right_items_shape = column_textbox (MARGIN_LEFT + column_width + Inches 0.5)
            right_items_top column_width (column_height - Inches 0.6) (Pt 24)
            (get_default (sd_rightItems d) [])
      in Inr (add_shapes s ([title_shape] @ subhead_shapes @
           [left_title_shape, right_title_shape, left_items_shape, right_items_shape])))"

section \<open>Process slide\<close>

definition step_size :: rat where
  "step_size = Inches 1.5"

definition connector_width :: rat where
  "connector_width = Inches 0.8"

definition available_width :: rat where
  "available_width = SLIDE_WIDTH - MARGIN_LEFT * 2"

definition gap_width :: "nat \<Rightarrow> rat" where
  "gap_width num_steps =
     (let total_steps_width = of_nat num_steps * step_size;
          total_connectors_width = (of_nat num_steps - 1) * connector_width;
          remaining_width_for_gaps =
            available_width - total_steps_width - total_connectors_width
      in if num_steps > 1 then
           (let total_num_gaps = (of_nat num_steps - 1) * 2
            in remaining_width_for_gaps / total_num_gaps)
         else Inches 0)"

text \<open>
  The loop over \<open>enumerate(steps)\<close>, with the running \<open>current_x\<close>: a step box, then,
  unless the step is the last one, the arrow between two gaps.
\<close>

fun process_steps :: "nat \<Rightarrow> rat \<Rightarrow> nat \<Rightarrow> rat \<Rightarrow> string list \<Rightarrow> shape list" where
  "process_steps num_steps start_y i current_x [] = []"
| "process_steps num_steps start_y i current_x (step_text # rest) =
     (let p = new_paragraph\<lparr>alignment := Some CENTER, font_size := Some (Pt 24),
                font_name := Some FONT_BODY\<rparr>;
          step_shape = (add_shape RECTANGLE current_x start_y step_size step_size)
            \<lparr>sh_fill := Some DARK_GRAY,
             text_frame := [apply_formatted_text_to_paragraph p step_text]\<rparr>;
          current_x = current_x + step_size
      in if i + 1 < num_steps then
           (let arrow_start_x = current_x + gap_width num_steps;
                arrow_y = start_y + step_size / 2;
                arrow_shape = (add_shape RIGHT_ARROW arrow_start_x (arrow_y - Inches 0.1)
                  connector_width (Inches 0.2))\<lparr>sh_fill := Some TEXT_COLOR\<rparr>;
                current_x = current_x + (gap_width num_steps + connector_width
                  + gap_width num_steps)
            in step_shape # arrow_shape # process_steps num_steps start_y (Suc i) current_x rest)
         else step_shape # process_steps num_steps start_y (Suc i) current_x rest)"

definition draw_process_slide :: "slide \<Rightarrow> slide_data \<Rightarrow> error + slide" where
  "draw_process_slide s d =
     (let title_shape = slide_title_shape (get_default (sd_title d) []);
          (subhead_shapes, body_top) = subhead_block d;
          steps = get_default (sd_steps d) []
      in if steps = [] then Inr (add_shapes s ([title_shape] @ subhead_shapes))
         else
           (let num_steps = length steps;
                diagram_height = step_size;
                available_vertical_space = SLIDE_HEIGHT - body_top - MARGIN_BOTTOM;
                start_y = body_top + (available_vertical_space - diagram_height) / 2
            in Inr (add_shapes s ([title_shape] @ subhead_shapes @
                 process_steps num_steps start_y 0 MARGIN_LEFT steps))))"

section \<open>Table slide\<close>

definition header_cell :: "string \<Rightarrow> para" where
  "header_cell header_text =
     (apply_formatted_text_to_paragraph new_paragraph header_text)
       \<lparr>font_bold := Some True, alignment := Some CENTER, font_size := Some BODY_FONT_SIZE\<rparr>"

definition body_cell :: "string \<Rightarrow> para" where
  "body_cell cell_text =
     (apply_formatted_text_to_paragraph new_paragraph cell_text)
       \<lparr>alignment := Some LEFT, font_size := Some BODY_FONT_SIZE\<rparr>"

text \<open>
  The rows of the table body. \<open>table.cell(row, col_idx)\<close> raises \<open>IndexError\<close> for a
  column the table does not have; cells no text is written to keep their empty paragraph.
\<close>

fun table_rows :: "nat \<Rightarrow> string list list \<Rightarrow> error + para list list" where
  "table_rows num_cols [] = Inr []"
| "table_rows num_cols (row_data # rest) =
     (if length row_data > num_cols then Inl IndexError
      else case table_rows num_cols rest of
             Inl e \<Rightarrow> Inl e
           | Inr others \<Rightarrow>
               Inr ((map body_cell row_data
                     @ replicate (num_cols - length row_data) new_paragraph) # others))"

definition add_table :: "rat \<Rightarrow> rat \<Rightarrow> rat \<Rightarrow> rat \<Rightarrow> shape" where
  "add_table l t w h = \<lparr>sh_kind = TABLE, sh_left = l, sh_top = t, sh_width = w,
     sh_height = h, sh_fill = None, text_frame = [], column_widths = [], cells = []\<rparr>"

definition draw_table_slide :: "slide \<Rightarrow> slide_data \<Rightarrow> error + slide" where
  "draw_table_slide s d =
     (let title_shape = slide_title_shape (get_default (sd_title d) []);
          (subhead_shapes, body_top) = subhead_block d;
          headers = get_default (sd_headers d) [];
          rows_data = get_default (sd_rows d) []
      in if headers = [] \<and> rows_data = [] then
           Inr (add_shapes s ([title_shape] @ subhead_shapes))
         else
           (let num_cols = (if headers \<noteq> [] then length headers
                            else if rows_data \<noteq> [] then length (rows_data ! 0) else 0);
                num_rows = length rows_data + (if headers \<noteq> [] then 1 else 0)
            in if num_cols = 0 \<or> num_rows = 0 then
                 Inr (add_shapes s ([title_shape] @ subhead_shapes))
               else
                 (let table_left = MARGIN_LEFT;
                      table_top = body_top + Inches 0.2;
                      table_width = SLIDE_WIDTH - MARGIN_LEFT * 2;
                      table_height = SLIDE_HEIGHT - table_top - MARGIN_BOTTOM;
                      table_shape = add_table table_left table_top table_width table_height;
                      widths = replicate num_cols (Emu (table_width / of_nat num_cols));
                      header_rows = (if headers \<noteq> [] then [map header_cell headers] else [])
                  in case table_rows num_cols rows_data of
                       Inl e \<Rightarrow> Inl e
                     | Inr body_rows \<Rightarrow>
                         Inr (add_shapes s ([title_shape] @ subhead_shapes @
                           [table_shape\<lparr>column_widths := widths,
                              cells := header_rows @ body_rows\<rparr>])))))"

section \<open>Timeline slide\<close>

definition marker_size :: rat where
  "marker_size = Inches 0.5"

definition desc_box_width :: rat where
  "desc_box_width = Inches 3.5"

definition desc_box_height :: rat where
  "desc_box_height = Inches 1.5"

text \<open>The title, the subhead when there is one, and the top of the body below them.\<close>

definition timeline_head :: "slide_data \<Rightarrow> shape list \<times> rat" where
  "timeline_head d =
     (let title_text = get_default (sd_title d) ''Timeline'';
          title_shape = slide_title_shape title_text;
          body_top = MARGIN_TOP + Inches 1.2
      in case sd_subhead d of
           None \<Rightarrow> ([title_shape], body_top + Inches 0.2)
         | Some subhead \<Rightarrow>
             (let desc_shape = add_textbox MARGIN_LEFT body_top
                    (SLIDE_WIDTH - MARGIN_LEFT - MARGIN_RIGHT) (Inches 0.8);
                  p = new_paragraph\<lparr>font_size := Some BODY_FONT_SIZE,
                        font_name := Some FONT_BODY, font_color := Some TEXT_COLOR\<rparr>
              in ([title_shape,
                   desc_shape\<lparr>text_frame := set_formatted_text_in_frame [p] subhead\<rparr>],
                  body_top + Inches 1.0)))"

definition timeline_y_of :: "rat \<Rightarrow> rat" where
  "timeline_y_of body_top =
     (let available_height = SLIDE_HEIGHT - body_top - MARGIN_BOTTOM
      in body_top + available_height / 2)"

definition timeline_bar :: "rat \<Rightarrow> shape" where
  "timeline_bar timeline_y =
     (let timeline_width = SLIDE_WIDTH - MARGIN_LEFT * 2
      in (add_shape RECTANGLE MARGIN_LEFT (timeline_y - Inches 0.025) timeline_width
           (Inches 0.05))\<lparr>sh_fill := Some TEXT_COLOR\<rparr>)"

text \<open>The body of the loop over \<open>enumerate(milestones)\<close>: marker, date label, description.\<close>

definition milestone_shapes :: "nat \<Rightarrow> rat \<Rightarrow> nat \<Rightarrow> milestone \<Rightarrow> shape list" where
  "milestone_shapes num_milestones timeline_y i m =
     (let timeline_usable_width = SLIDE_WIDTH - MARGIN_LEFT - MARGIN_RIGHT;
          spacing = (if num_milestones > 1
                     then timeline_usable_width / (of_nat num_milestones - 1) else 0);
          start_x = (if num_milestones > 1 then MARGIN_LEFT
                     else MARGIN_LEFT + timeline_usable_width / 2);
          date_y_above = timeline_y - Inches 0.7;
          desc_y_below = timeline_y + Inches 0.7;
          desc_y_above = timeline_y - Inches 0.7 - desc_box_height;
          milestone_label = get_default (m_label m) [];
          milestone_date = get_default (m_date m) [];
          marker_center_x = (if num_milestones > 1 then start_x + of_nat i * spacing
                             else start_x);
          marker_x = marker_center_x - marker_size / 2;
          marker_y = timeline_y - marker_size / 2;
          marker_shape = (add_shape OVAL marker_x marker_y marker_size marker_size)
            \<lparr>sh_fill := Some GOOGLE_BLUE\<rparr>;
          current_date_y = date_y_above;
          (current_desc_y, current_date_y) =
            (if i mod 2 = 0 then (desc_y_below, current_date_y)
             else (desc_y_above, desc_y_above - Inches 0.4));
          date_shape = add_textbox (marker_center_x - desc_box_width / 2) current_date_y
            desc_box_width (Inches 0.5);
          p_date = set_text (new_paragraph\<lparr>alignment := Some CENTER,
            font_size := Some (Pt 24), font_name := Some FONT_BODY,
            font_bold := Some True\<rparr>) milestone_date;
          desc_x = marker_center_x - desc_box_width / 2;
          desc_shape = add_textbox desc_x current_desc_y desc_box_width desc_box_height;
          p_desc = set_text (new_paragraph\<lparr>alignment := Some CENTER,
            font_size := Some BODY_FONT_SIZE, font_name := Some FONT_BODY\<rparr>) milestone_label
      in [marker_shape, date_shape\<lparr>text_frame := [p_date]\<rparr>,
          desc_shape\<lparr>text_frame := [p_desc]\<rparr>])"

definition draw_timeline_slide :: "slide \<Rightarrow> slide_data \<Rightarrow> error + slide" where
  "draw_timeline_slide s d =
     (let (head_shapes, body_top) = timeline_head d;
          timeline_y = timeline_y_of body_top;
          timeline_shape = timeline_bar timeline_y;
          milestones = get_default (sd_milestones d) [];
          num_milestones = length milestones
      in if num_milestones = 0 then Inr (add_shapes s (head_shapes @ [timeline_shape]))
         else Inr (add_shapes s (head_shapes @ [timeline_shape] @
                concat (map (\<lambda>(i, m). milestone_shapes num_milestones timeline_y i m)
                  (enumerate 0 milestones)))))"

section \<open>Diagram, cards and progress slides\<close>

fun lane_shapes :: "rat \<Rightarrow> rat \<Rightarrow> lane list \<Rightarrow> shape list" where
  "lane_shapes lane_height current_y [] = []"
| "lane_shapes lane_height current_y (lane_data # rest) =
     (let lane_width = SLIDE_WIDTH - MARGIN_LEFT - MARGIN_RIGHT;
          title_box = add_textbox MARGIN_LEFT current_y (Inches 2) lane_height;
          p = set_text (new_paragraph\<lparr>alignment := Some CENTER,
                font_size := Some SUBHEAD_FONT_SIZE, font_name := Some FONT_HEADLINE,
                font_bold := Some True\<rparr>) (get_default (lane_title lane_data) []);
          items_box = column_textbox (MARGIN_LEFT + Inches 2.2) current_y
            (lane_width - Inches 2.2) lane_height BODY_FONT_SIZE
            (get_default (lane_items lane_data) [])
      in title_box\<lparr>text_frame := [p]\<rparr> # items_box
         # lane_shapes lane_height (current_y + lane_height) rest)"

definition draw_diagram_slide :: "slide \<Rightarrow> slide_data \<Rightarrow> error + slide" where
  "draw_diagram_slide s d =
     (let title_shape = slide_title_shape (get_default (sd_title d) []);
          (subhead_shapes, body_top) = subhead_block d;
          lanes = get_default (sd_lanes d) []
      in if lanes = [] then Inr (add_shapes s ([title_shape] @ subhead_shapes))
         else
           (let num_lanes = length lanes;
                lane_height = (SLIDE_HEIGHT - body_top - MARGIN_BOTTOM) / of_nat num_lanes
            in Inr (add_shapes s ([title_shape] @ subhead_shapes @
                 lane_shapes lane_height body_top lanes))))"

definition CARD_COLORS :: "rgb list" where
  "CARD_COLORS = [GOOGLE_BLUE, RED, ORANGE, GOOGLE_BLUE, GREEN, RED]"

definition card_paragraph :: "string \<Rightarrow> para" where
  "card_paragraph font = new_paragraph\<lparr>alignment := Some CENTER, font_size := Some (Pt 24),
     font_name := Some font, font_bold := Some True\<rparr>"

definition card_shape :: "nat \<Rightarrow> rat \<Rightarrow> nat \<Rightarrow> item \<Rightarrow> shape" where
  "card_shape num_columns start_y i item_data =
     (let total_width = SLIDE_WIDTH - MARGIN_LEFT * 2;
          gap_between_cards = Inches 0.3;
          card_width = (total_width - (of_nat num_columns - 1) * gap_between_cards)
            / of_nat num_columns;
          card_height = Inches 2.5;
          row_idx = i div num_columns;
          col_idx = i mod num_columns;
          card_left = MARGIN_LEFT + of_nat col_idx * (card_width + gap_between_cards);
          card_top = start_y + of_nat row_idx * (card_height + gap_between_cards);
          paragraphs =
            (case item_data of
               ItemStr str \<Rightarrow>
                 [apply_formatted_text_to_paragraph
                    ((card_paragraph FONT_BODY)\<lparr>font_color := Some WHITE\<rparr>) str]
             | ItemObj obj \<Rightarrow>
                 (let title = get_default (item_title obj) [];
                      desc = get_default (item_desc obj) []
                  in apply_formatted_text_to_paragraph (card_paragraph FONT_HEADLINE) title
                     # (if desc \<noteq> []
                        then [apply_formatted_text_to_paragraph (card_paragraph FONT_BODY) desc]
                        else [])))
      in (add_shape ROUNDED_RECTANGLE card_left card_top card_width card_height)
           \<lparr>sh_fill := Some (CARD_COLORS ! (i mod length CARD_COLORS)),
            text_frame := clear [new_paragraph] @ paragraphs\<rparr>)"

definition draw_cards_slide :: "slide \<Rightarrow> slide_data \<Rightarrow> error + slide" where
  "draw_cards_slide s d =
     (let title_shape = slide_title_shape (get_default (sd_title d) []);
          (subhead_shapes, body_top) = subhead_block d;
          items = get_default (sd_items d) []
      in if items = [] then Inr (add_shapes s ([title_shape] @ subhead_shapes))
         else
           (let num_columns = (case get_default (sd_columns d) (ColumnCount 2) of
                                 ColumnCount n \<Rightarrow> if n = 2 \<or> n = 3 then nat n else 2
                               | ColumnLists l \<Rightarrow> 2);
                start_y = body_top + Inches 0.5
            in Inr (add_shapes s ([title_shape] @ subhead_shapes @
                 map (\<lambda>(i, item_data). card_shape num_columns start_y i item_data)
                   (enumerate 0 items)))))"

definition item_height :: rat where
  "item_height = Inches 0.8"

definition progress_bar_height :: rat where
  "progress_bar_height = Inches 0.2"

definition progress_bar_width :: rat where
  "progress_bar_width = Inches 8"

definition fill_width :: "int \<Rightarrow> rat" where
  "fill_width percent = progress_bar_width * (of_int percent / 100)"

text \<open>
  The four shapes of one progress item: label, background bar, foreground bar and the
  text \<open>f"{percent}%"\<close>.
\<close>

definition progress_item_shapes :: "rat \<Rightarrow> item_obj \<Rightarrow> shape list" where
  "progress_item_shapes current_y it =
     (let label = get_default (item_label it) [];
          percent = get_default (item_percent it) 0;
          label_shape = add_textbox MARGIN_LEFT current_y (Inches 4) item_height;
          p_label = set_text (new_paragraph\<lparr>font_size := Some BODY_FONT_SIZE,
            font_name := Some FONT_BODY, font_bold := Some True\<rparr>) label;
          bar_bg_left = MARGIN_LEFT + Inches 4.5;
          bar_bg_shape = (add_shape RECTANGLE bar_bg_left
            (current_y + (item_height - progress_bar_height) / 2)
            progress_bar_width progress_bar_height)
            \<lparr>sh_fill := Some (RGBColor 220 220 220)\<rparr>;
          bar_fill_shape = (add_shape RECTANGLE bar_bg_left
            (current_y + (item_height - progress_bar_height) / 2)
            (fill_width percent) progress_bar_height)\<lparr>sh_fill := Some GOOGLE_BLUE\<rparr>;
          percent_text_shape = add_textbox (bar_bg_left + progress_bar_width + Inches 0.2)
            current_y (Inches 1) item_height;
          p_percent = set_text (new_paragraph\<lparr>font_size := Some BODY_FONT_SIZE,
            font_name := Some FONT_BODY\<rparr>) (str_int percent @ ''%'')
      in [label_shape\<lparr>text_frame := [p_label]\<rparr>, bar_bg_shape, bar_fill_shape,
          percent_text_shape\<lparr>text_frame := [p_percent]\<rparr>])"

text \<open>The loop over the items; \<open>item.get\<close> on a string item raises \<open>AttributeError\<close>.\<close>

fun progress_items :: "rat \<Rightarrow> item list \<Rightarrow> error + shape list" where
  "progress_items current_y [] = Inr []"
| "progress_items current_y (ItemStr str # rest) = Inl AttributeError"
| "progress_items current_y (ItemObj it # rest) =
     (case progress_items (current_y + (item_height + Inches 0.2)) rest of
        Inl e \<Rightarrow> Inl e
      | Inr others \<Rightarrow> Inr (progress_item_shapes current_y it @ others))"

definition draw_progress_slide :: "slide \<Rightarrow> slide_data \<Rightarrow> error + slide" where
  "draw_progress_slide s d =
     (let title_shape = slide_title_shape (get_default (sd_title d) []);
          (subhead_shapes, body_top) = subhead_block d;
          items = get_default (sd_items d) []
      in if items = [] then Inr (add_shapes s ([title_shape] @ subhead_shapes))
         else
           (let current_y = body_top + Inches 0.5
            in case progress_items current_y items of
                 Inl e \<Rightarrow> Inl e
               | Inr item_shapes \<Rightarrow>
                   Inr (add_shapes s ([title_shape] @ subhead_shapes @ item_shapes))))"

section \<open>Assembling the presentation\<close>

definition slide_draw_functions ::
  "string \<Rightarrow> (slide \<Rightarrow> slide_data \<Rightarrow> error + slide) option" where
  "slide_draw_functions = map_of
     [(''title'', draw_title_slide),
      (''section'', draw_section_slide),
      (''content'', draw_content_slide),
      (''compare'', draw_compare_slide),
      (''process'', draw_process_slide),
      (''closing'', draw_closing_slide),
      (''table'', draw_table_slide),
      (''timeline'', draw_timeline_slide),
      (''diagram'', draw_diagram_slide),
      (''cards'', draw_cards_slide),
      (''progress'', draw_progress_slide)]"

text \<open>
  The assignments \<open>slide_data["title"] = ...\<close> and \<open>slide_data["notes"] = ...\<close> at the
  head of the loop body: they change the caller's record.
\<close>

definition truncate_title_notes :: "slide_data \<Rightarrow> slide_data" where
  "truncate_title_notes d =
     (let d = (case sd_title d of
                 None \<Rightarrow> d
               | Some t \<Rightarrow> if length t > 1000
                           then d\<lparr>sd_title := Some (take 1000 t @ ''...'')\<rparr> else d)
      in case sd_notes d of
           None \<Rightarrow> d
         | Some n \<Rightarrow> if length n > 1000
                     then d\<lparr>sd_notes := Some (take 1000 n @ ''...'')\<rparr> else d)"

text \<open>\<open>f"Slide_{i+1}_{slide_type}"\<close>; an absent type prints as \<open>None\<close>.\<close>

definition slide_name_of :: "nat \<Rightarrow> string option \<Rightarrow> string" where
  "slide_name_of i slide_type =
     ''Slide_'' @ str_nat (i + 1) @ ''_'' @ get_default slide_type ''None''"

text \<open>
  One turn of the loop of \<open>create_presentation\<close>: the new slide and the slide record as
  the turn leaves it.
\<close>

definition create_slide :: "nat \<Rightarrow> slide_data \<Rightarrow> error + (slide \<times> slide_data)" where
  "create_slide i slide_data =
     (let slide_type = sd_type slide_data;
          slide_data = truncate_title_notes slide_data;
          blank = \<lparr>slide_name = slide_name_of i slide_type, shapes = [], notes_text = None\<rparr>;
          drawn = (case slide_type of
                     None \<Rightarrow> Inr blank
                   | Some t \<Rightarrow>
                       (case slide_draw_functions t of
                          Some draw \<Rightarrow> draw blank slide_data
                        | None \<Rightarrow> Inr blank))
      in case drawn of
           Inl e \<Rightarrow> Inl e
         | Inr sl \<Rightarrow> Inr (add_speaker_notes sl (sd_notes slide_data), slide_data))"

fun create_slides :: "nat \<Rightarrow> slide_data list \<Rightarrow> error + (slide list \<times> slide_data list)" where
  "create_slides i [] = Inr ([], [])"
| "create_slides i (slide_data # rest) =
     (case create_slide i slide_data of
        Inl e \<Rightarrow> Inl e
      | Inr (sl, slide_data') \<Rightarrow>
          (case create_slides (Suc i) rest of
             Inl e \<Rightarrow> Inl e
           | Inr (sls, ds) \<Rightarrow> Inr (sl # sls, slide_data' # ds)))"

text \<open>
  \<open>create_presentation\<close> returns the presentation; the second component is the caller's
  list of slide records as the call leaves it.
\<close>

definition create_presentation ::
  "slide_data list \<Rightarrow> error + (presentation \<times> slide_data list)" where
  "create_presentation slides_data =
     (case create_slides 0 slides_data of
        Inl e \<Rightarrow> Inl e
      | Inr (sls, ds) \<Rightarrow>
          Inr (\<lparr>prs_slide_width = SLIDE_WIDTH, prs_slide_height = SLIDE_HEIGHT,
                prs_slides = sls\<rparr>, ds))"

text \<open>The slide record with no key, for building examples.\<close>

definition empty_slide_data :: slide_data where
  "empty_slide_data = \<lparr>sd_type = None, sd_title = None, sd_notes = None, sd_date = None,
     sd_sectionNo = None, sd_subhead = None, sd_points = None, sd_twoColumn = None,
     sd_columns = None, sd_leftTitle = None, sd_rightTitle = None, sd_leftItems = None,
     sd_rightItems = None, sd_steps = None, sd_milestones = None, sd_lanes = None,
     sd_items = None, sd_headers = None, sd_rows = None\<rparr>"


section \<open>Marked-up text, as the specification describes it\<close>










section \<open>Markup parser: properties\<close>













lemma part_runs_Nil: "part_runs [] = []"
  by (simp add: part_runs_def)






lemma apply_runs:
  "runs (apply_formatted_text_to_paragraph p s) = runs p @ concat (map part_runs (re_split s))"
proof (cases s)
  case Nil
  have "re_split [] = [[]]" by (simp only: re_split.simps)
  with Nil show ?thesis by (simp add: apply_formatted_text_to_paragraph_def part_runs_Nil)
next
  case (Cons c cs)
  then show ?thesis by (simp add: apply_formatted_text_to_paragraph_def)
qed




text \<open>
  C4 at the input \<open>**\<close>. The part \<open>**\<close> both starts and ends with \<open>**\<close>, so the first
  branch takes it for a bold span and adds a bold run with the empty text: the two
  asterisks are lost. The sibling \<open>[[\<close> does not end with \<open>]]\<close> and stays as plain text.
\<close>

theorem unmatched_marker_dropped:
  "runs (apply_formatted_text_to_paragraph new_paragraph ''**'')
     = [\<lparr>run_text = [], run_bold = Some True, run_color = None,
         run_font_name = Some FONT_BODY\<rparr>] \<and>
   runs (apply_formatted_text_to_paragraph new_paragraph ''[['')
     = [\<lparr>run_text = ''[['', run_bold = None, run_color = None,
         run_font_name = Some FONT_BODY\<rparr>]"
  by (simp add: apply_runs new_paragraph_def re_split.simps part_runs_def add_run_def
      slice_2_m2_def suffix_to_prefix)

section \<open>Process slide: properties\<close>









section \<open>Timeline slide: properties\<close>






section \<open>Progress slide: properties\<close>


lemma progress_items_total:
  "list_all (\<lambda>x. \<exists>it. x = ItemObj it) its \<Longrightarrow> \<exists>shs. progress_items y its = Inr shs"
  by (induction y its rule: progress_items.induct) auto




section \<open>Content slide: properties\<close>




section \<open>Assembling the presentation: properties\<close>

lemma truncate_title_notes_eq:
  "truncate_title_notes d = d\<lparr>sd_title := map_option truncate_1000 (sd_title d),
     sd_notes := map_option truncate_1000 (sd_notes d)\<rparr>"
  by (simp add: truncate_title_notes_def truncate_1000_def Let_def split: option.splits)

lemma create_slide_data:
  "create_slide i d = Inr (sl, d') \<Longrightarrow> d' = truncate_title_notes d"
  by (auto simp: create_slide_def Let_def split: sum.splits)

lemma create_slides_data:
  "create_slides i ds = Inr (sls, ds') \<Longrightarrow> ds' = map truncate_title_notes ds"
proof (induction ds arbitrary: i sls ds')
  case Nil
  then show ?case by simp
next
  case (Cons d ds)
  from Cons.prems obtain sl d1 sls1 ds1 where
    a: "create_slide i d = Inr (sl, d1)" and b: "create_slides (Suc i) ds = Inr (sls1, ds1)"
    and c: "ds' = d1 # ds1"
    by (auto split: sum.splits)
  from create_slide_data [OF a] Cons.IH [OF b] c show ?case by simp
qed

text \<open>
  C6, as the code has it. When \<open>create_presentation\<close> returns, the caller's list holds
  as many records as before, and each record is the one passed in except that a title or
  notes longer than 1000 characters is replaced by its first 1000 characters followed by
  three dots; every other field, and a title or notes of at most 1000 characters, is as
  the caller passed it.
\<close>

theorem caller_data_after_create:
  assumes "create_presentation slides_data = Inr (prs, left)"
  shows "length left = length slides_data \<and>
     (\<forall>k < length slides_data.
        left ! k = (slides_data ! k)
          \<lparr>sd_title := map_option truncate_1000 (sd_title (slides_data ! k)),
           sd_notes := map_option truncate_1000 (sd_notes (slides_data ! k))\<rparr>)"
proof -
  from assms obtain sls where "create_slides 0 slides_data = Inr (sls, left)"
    by (auto simp: create_presentation_def split: sum.splits)
  then have "left = map truncate_title_notes slides_data" by (rule create_slides_data)
  then show ?thesis by (simp add: truncate_title_notes_eq)
qed

lemma create_slide_title:
  "sd_type d = Some ''title'' \<Longrightarrow> \<exists>sl. create_slide i d = Inr (sl, truncate_title_notes d)"
  by (simp add: create_slide_def slide_draw_functions_def draw_title_slide_def Let_def)

lemma create_presentation_title:
  assumes "sd_type d = Some ''title''"
  shows "\<exists>prs. create_presentation [d] = Inr (prs, [truncate_title_notes d])"
proof -
  from create_slide_title [OF assms, of 0] obtain sl where
    "create_slide 0 d = Inr (sl, truncate_title_notes d)" by blast
  then show ?thesis by (simp add: create_presentation_def)
qed

theorem caller_data_after_create_witness:
  "\<exists>prs left.
     create_presentation [empty_slide_data\<lparr>sd_type := Some ''title'',
         sd_title := Some (replicate 1001 (CHR ''a'')), sd_notes := Some ''n''\<rparr>]
       = Inr (prs, left) \<and>
     left = [empty_slide_data\<lparr>sd_type := Some ''title'',
         sd_title := Some (replicate 1000 (CHR ''a'') @ ''...''), sd_notes := Some ''n''\<rparr>]"
proof -
  let ?d = "empty_slide_data\<lparr>sd_type := Some ''title'',
         sd_title := Some (replicate 1001 (CHR ''a'')), sd_notes := Some ''n''\<rparr>"
  from create_presentation_title [of ?d] obtain prs where
    c: "create_presentation [?d] = Inr (prs, [truncate_title_notes ?d])" by auto
  from caller_data_after_create [OF c] have
    "[truncate_title_notes ?d] = [empty_slide_data\<lparr>sd_type := Some ''title'',
         sd_title := Some (replicate 1000 (CHR ''a'') @ ''...''), sd_notes := Some ''n''\<rparr>]"
    by (simp add: truncate_1000_def)
  with c show ?thesis by simp
qed

text \<open>
  C6, as stated, fails for a title of 1001 characters: the record the call leaves behind
  holds the truncated title, not the value the caller passed in.
\<close>

theorem caller_data_changed_counterexample:
  "map_sum id snd (create_presentation [empty_slide_data\<lparr>sd_type := Some ''title'',
         sd_title := Some (replicate 1001 (CHR ''a''))\<rparr>])
     = Inr [empty_slide_data\<lparr>sd_type := Some ''title'',
         sd_title := Some (replicate 1000 (CHR ''a'') @ ''...'')\<rparr>] \<and>
   map_sum id snd (create_presentation [empty_slide_data\<lparr>sd_type := Some ''title'',
         sd_title := Some (replicate 1001 (CHR ''a''))\<rparr>])
     \<noteq> Inr [empty_slide_data\<lparr>sd_type := Some ''title'',
         sd_title := Some (replicate 1001 (CHR ''a''))\<rparr>]"
proof -
  let ?d = "empty_slide_data\<lparr>sd_type := Some ''title'',
         sd_title := Some (replicate 1001 (CHR ''a''))\<rparr>"
  from create_presentation_title [of ?d] obtain prs where
    c: "create_presentation [?d] = Inr (prs, [truncate_title_notes ?d])" by auto
  have t: "truncate_title_notes ?d = empty_slide_data\<lparr>sd_type := Some ''title'',
         sd_title := Some (replicate 1000 (CHR ''a'') @ ''...'')\<rparr>"
    by (simp add: truncate_title_notes_eq truncate_1000_def empty_slide_data_def)
  have ne: "replicate 1000 (CHR ''a'') @ ''...'' \<noteq> replicate 1001 (CHR ''a'')"
  proof
    assume "replicate 1000 (CHR ''a'') @ ''...'' = replicate 1001 (CHR ''a'')"
    then have "length (replicate 1000 (CHR ''a'') @ ''...'') = length (replicate 1001 (CHR ''a''))"
      by (rule arg_cong)
    then show False by simp
  qed
  have neq: "empty_slide_data\<lparr>sd_type := Some ''title'',
         sd_title := Some (replicate 1000 (CHR ''a'') @ ''...'')\<rparr> \<noteq> ?d"
  proof
    assume "empty_slide_data\<lparr>sd_type := Some ''title'',
         sd_title := Some (replicate 1000 (CHR ''a'') @ ''...'')\<rparr> = ?d"
    then have "sd_title (empty_slide_data\<lparr>sd_type := Some ''title'',
         sd_title := Some (replicate 1000 (CHR ''a'') @ ''...'')\<rparr>) = sd_title ?d"
      by (rule arg_cong)
    with ne show False by simp
  qed
  show ?thesis using neq by (simp add: c t)
qed

lemma truncate_1000_idem: "truncate_1000 (truncate_1000 s) = truncate_1000 s"
  by (simp add: truncate_1000_def)

lemma create_slide_unknown:
  assumes "sd_type d \<notin> Some ` dom slide_draw_functions"
  shows "create_slide i d =
     Inr (\<lparr>slide_name = slide_name_of i (sd_type d), shapes = [],
           notes_text = (case sd_notes d of
                           None \<Rightarrow> None
                         | Some n \<Rightarrow> if n = [] then None else Some (truncate_1000 n))\<rparr>,
          truncate_title_notes d)"
proof -
  have ty: "sd_type (truncate_title_notes d) = sd_type d"
    and no: "sd_notes (truncate_title_notes d) = map_option truncate_1000 (sd_notes d)"
    by (simp_all add: truncate_title_notes_eq)
  have e: "truncate_1000 n = [] \<longleftrightarrow> n = []" for n
    by (auto simp: truncate_1000_def)
  show ?thesis
  proof (cases "sd_type d")
    case None
    then show ?thesis
      by (simp add: create_slide_def Let_def add_speaker_notes_def no truncate_1000_idem e
          split: option.splits)
  next
    case (Some t)
    with assms have "slide_draw_functions t = None" by (auto simp: dom_def)
    with Some show ?thesis
      by (simp add: create_slide_def Let_def add_speaker_notes_def no truncate_1000_idem e
          split: option.splits)
  qed
qed

lemma create_slides_append:
  "create_slides i (xs @ ys) =
     (case create_slides i xs of
        Inl e \<Rightarrow> Inl e
      | Inr (s1, d1) \<Rightarrow>
          (case create_slides (i + length xs) ys of
             Inl e \<Rightarrow> Inl e
           | Inr (s2, d2) \<Rightarrow> Inr (s1 @ s2, d1 @ d2)))"
  by (induction xs arbitrary: i) (auto split: sum.splits)

lemma dom_slide_draw_functions:
  "dom slide_draw_functions = {''title'', ''section'', ''content'', ''compare'', ''process'',
     ''closing'', ''table'', ''timeline'', ''diagram'', ''cards'', ''progress''}"
  by (auto simp: slide_draw_functions_def dom_def split: if_splits)

text \<open>
  C7. A slide record whose type is absent or is not a key of the dispatch table gives a
  slide without shapes that carries the record's notes, and the deck around it is
  processed as before: the call fails only if a slide before or after it fails, and
  otherwise returns the slides of the records before it, the blank slide, and the slides
  of the records after it.
\<close>

theorem unknown_kind_skipped:
  assumes "sd_type d \<notin> Some ` dom slide_draw_functions"
  shows "create_presentation (pre @ d # post) =
     (case create_slides 0 pre of
        Inl e \<Rightarrow> Inl e
      | Inr (s1, d1) \<Rightarrow>
          (case create_slides (Suc (length pre)) post of
             Inl e \<Rightarrow> Inl e
           | Inr (s2, d2) \<Rightarrow>
               Inr (\<lparr>prs_slide_width = SLIDE_WIDTH, prs_slide_height = SLIDE_HEIGHT,
                     prs_slides = s1 @
                       [\<lparr>slide_name = slide_name_of (length pre) (sd_type d), shapes = [],
                         notes_text = (case sd_notes d of
                            None \<Rightarrow> None
                          | Some n \<Rightarrow> if n = [] then None else Some (truncate_1000 n))\<rparr>]
                       @ s2\<rparr>,
                    d1 @ [truncate_title_notes d] @ d2)))"
  by (simp add: create_presentation_def create_slides_append
      create_slide_unknown [OF assms] split: sum.splits)

lemma create_slide_closing:
  "\<exists>sh. create_slide i (empty_slide_data\<lparr>sd_type := Some ''closing''\<rparr>) =
     Inr (\<lparr>slide_name = slide_name_of i (Some ''closing''), shapes = [sh],
           notes_text = None\<rparr>,
          empty_slide_data\<lparr>sd_type := Some ''closing''\<rparr>)"
  by (simp add: create_slide_def slide_draw_functions_def draw_closing_slide_def Let_def
      truncate_title_notes_eq add_speaker_notes_def empty_slide_data_def add_shapes_def)

theorem unknown_kind_skipped_witness:
  "sd_type (empty_slide_data\<lparr>sd_type := Some ''bogus'', sd_notes := Some ''n''\<rparr>)
     \<notin> Some ` dom slide_draw_functions \<and>
   (\<exists>prs ds.
      create_presentation
        [empty_slide_data\<lparr>sd_type := Some ''closing''\<rparr>,
         empty_slide_data\<lparr>sd_type := Some ''bogus'', sd_notes := Some ''n''\<rparr>,
         empty_slide_data\<lparr>sd_type := Some ''closing''\<rparr>] = Inr (prs, ds) \<and>
      length (prs_slides prs) = 3 \<and>
      shapes (prs_slides prs ! 1) = [] \<and>
      notes_text (prs_slides prs ! 1) = Some ''n'' \<and>
      length (shapes (prs_slides prs ! 2)) = 1)"
proof -
  let ?c = "empty_slide_data\<lparr>sd_type := Some ''closing''\<rparr>"
  let ?d = "empty_slide_data\<lparr>sd_type := Some ''bogus'', sd_notes := Some ''n''\<rparr>"
  have u: "sd_type ?d \<notin> Some ` dom slide_draw_functions"
    by (simp add: dom_slide_draw_functions)
  from create_slide_closing [of 0] obtain sh0 where
    c0: "create_slide 0 ?c = Inr (\<lparr>slide_name = slide_name_of 0 (Some ''closing''),
      shapes = [sh0], notes_text = None\<rparr>, ?c)" by blast
  from create_slide_closing [of 2] obtain sh2 where
    c2: "create_slide 2 ?c = Inr (\<lparr>slide_name = slide_name_of 2 (Some ''closing''),
      shapes = [sh2], notes_text = None\<rparr>, ?c)" by blast
  have n2: "Suc (Suc 0) = 2" by simp
  show ?thesis
    using unknown_kind_skipped [OF u, of "[?c]" "[?c]"] u
    by (simp add: c0 c2 n2 truncate_1000_def)
qed

section \<open>Section numbers and empty collections\<close>

text \<open>
  C5 on a deck of three section slides, the first two without \<open>sectionNo\<close>. The
  number pane is the first shape of a section slide. For the first two slides its
  paragraph has no run: no number is drawn from any counter. The third slide shows its
  explicit number.
\<close>

theorem section_number_not_assigned:
  "map_sum id (\<lambda>r. map (\<lambda>sl. map runs (text_frame (hd (shapes sl)))) (prs_slides (fst r)))
     (create_presentation
        [empty_slide_data\<lparr>sd_type := Some ''section'', sd_title := Some ''One''\<rparr>,
         empty_slide_data\<lparr>sd_type := Some ''section'', sd_title := Some ''Two''\<rparr>,
         empty_slide_data\<lparr>sd_type := Some ''section'', sd_title := Some ''Three'',
           sd_sectionNo := Some 7\<rparr>])
   = Inr [[[]], [[]],
          [[\<lparr>run_text = ''7'', run_bold = None, run_color = None, run_font_name = None\<rparr>]]]"
  by (simp add: create_presentation_def create_slide_def slide_draw_functions_def
      draw_section_slide_def Let_def truncate_title_notes_eq add_speaker_notes_def
      empty_slide_data_def add_shapes_def truncate_1000_def str_section_no_def set_text_def
      add_textbox_def str_int_def add_run_def new_paragraph_def)

lemma empty_collection_title_only:
  "sd_steps d = Some [] \<or> sd_steps d = None \<Longrightarrow>
     draw_process_slide s d = Inr (add_shapes s
       ([slide_title_shape (get_default (sd_title d) [])] @ fst (subhead_block d)))"
  "sd_lanes d = Some [] \<or> sd_lanes d = None \<Longrightarrow>
     draw_diagram_slide s d = Inr (add_shapes s
       ([slide_title_shape (get_default (sd_title d) [])] @ fst (subhead_block d)))"
  "sd_items d = Some [] \<or> sd_items d = None \<Longrightarrow>
     draw_cards_slide s d = Inr (add_shapes s
       ([slide_title_shape (get_default (sd_title d) [])] @ fst (subhead_block d)))"
  "sd_items d = Some [] \<or> sd_items d = None \<Longrightarrow>
     draw_progress_slide s d = Inr (add_shapes s
       ([slide_title_shape (get_default (sd_title d) [])] @ fst (subhead_block d)))"
  by (auto simp: draw_process_slide_def draw_diagram_slide_def draw_cards_slide_def
      draw_progress_slide_def get_default_def Let_def split: prod.splits)

text \<open>
  C8 on a timeline slide with no milestone: beside the title box the slide holds the
  rectangle of the baseline, which is drawn before the milestones are counted. A process
  slide with no step holds the title box alone.
\<close>

theorem empty_timeline_draws_bar:
  "map_sum id (\<lambda>sl. map sh_kind (shapes sl))
     (draw_timeline_slide \<lparr>slide_name = ''Slide_1_timeline'', shapes = [], notes_text = None\<rparr>
        (empty_slide_data\<lparr>sd_type := Some ''timeline'', sd_title := Some ''T'',
           sd_milestones := Some []\<rparr>))
   = Inr [TEXTBOX, RECTANGLE] \<and>
   map_sum id (\<lambda>sl. map sh_kind (shapes sl))
     (draw_process_slide \<lparr>slide_name = ''Slide_1_process'', shapes = [], notes_text = None\<rparr>
        (empty_slide_data\<lparr>sd_type := Some ''process'', sd_title := Some ''T'',
           sd_steps := Some []\<rparr>))
   = Inr [TEXTBOX]"
  by (simp add: draw_timeline_slide_def draw_process_slide_def timeline_head_def
      subhead_block_def timeline_bar_def slide_title_shape_def add_shape_def add_textbox_def
      add_shapes_def Let_def get_default_def empty_slide_data_def)

end
